theory Spec2Isabelle
  imports Complex_Main "HOL-Library.Word"
begin

section \<open>vmlib/mat44.hpp: 4x4 row-major matrices\<close>

text \<open>
  The header computes on C++ \<open>float\<close>. Except where said otherwise this development
  reads a \<open>float\<close> as a \<open>real\<close>, with \<open>std::cos\<close>, \<open>std::sin\<close> and \<open>std::tan\<close> as the
  real functions: rounding, infinities and NaN are then outside the model.

  \<open>make_perspective_projection\<close> divides and multiplies its arguments, so it is modelled
  twice: once over an arbitrary arithmetic (\<open>make_perspective_projection_on\<close>), of which
  binary32 rounding is an instance, and once over the reals. Where a C++ division by zero
  yields an infinity or a NaN (\<open>aNear = aFar\<close>, \<open>aAspect = 0\<close> or
  \<open>tan (aFovInRadians / 2) = 0\<close>), the real quotient is HOL's \<open>x / 0 = 0\<close>: at those
  arguments the real reading does not describe the entries computed by a division, and
  no theorem about these entries is stated there.
\<close>

subsection \<open>Data\<close>

text \<open>
  Modelled from the spec: \<open>vec3.hpp\<close> and \<open>vec4.hpp\<close> are included by the header but are
  not among the sources. The spec describes them as plain 3- and 4-component tuples; the
  header and the tests read the members \<open>x\<close>, \<open>y\<close>, \<open>z\<close> (and \<open>w\<close>) and build a
  \<open>Vec4f\<close> from four values in that order.
\<close>

datatype Vec3f = Vec3f (vec3_x: real) (vec3_y: real) (vec3_z: real)

datatype Vec4f = Vec4f (vec4_x: real) (vec4_y: real) (vec4_z: real) (vec4_w: real)

text \<open>\<open>struct Mat44f { float v[16]; }\<close>: the array is a list, of length 16 in every
  value the program can build.\<close>

datatype Mat44f = Mat44f (v: "real list")

definition wf_Mat44f :: "Mat44f \<Rightarrow> bool" where
  "wf_Mat44f m \<longleftrightarrow> length (v m) = 16"

text \<open>
  The two overloads of \<open>operator[] (std::size_t aI, std::size_t aJ)\<close>:
  \<^verbatim>\<open>assert(aI < 4 && aJ < 4); return v[aI * 4 + aJ];\<close>
  The indices are \<open>std::size_t\<close>, taken here as 64-bit words, and \<open>aI * 4 + aJ\<close> is
  computed on words, so it may wrap. A failed \<open>assert\<close> aborts the program: that is the
  value \<open>AssertionFailed\<close>. With \<open>NDEBUG\<close> defined the macro expands to nothing; the flag
  \<open>ndebug\<close> says which build runs. C++ leaves an access past the end of \<open>v\<close> undefined:
  it is the value \<open>OutOfBounds\<close>, so that a theorem can say it never happens. The
  \<open>const\<close> overload is read through (\<open>index_get\<close>); the other one returns a reference
  that the caller assigns to (\<open>index_set\<close>).
\<close>

datatype error = AssertionFailed | OutOfBounds

definition index_get :: "bool \<Rightarrow> Mat44f \<Rightarrow> 64 word \<Rightarrow> 64 word \<Rightarrow> error + real" where
  "index_get ndebug m aI aJ =
     (if \<not> ndebug \<and> \<not> (aI < 4 \<and> aJ < 4) then Inl AssertionFailed
      else let n = unat (aI * 4 + aJ)
           in if n < length (v m) then Inr (v m ! n) else Inl OutOfBounds)"

definition index_set :: "bool \<Rightarrow> Mat44f \<Rightarrow> 64 word \<Rightarrow> 64 word \<Rightarrow> real \<Rightarrow> error + Mat44f" where
  "index_set ndebug m aI aJ a =
     (if \<not> ndebug \<and> \<not> (aI < 4 \<and> aJ < 4) then Inl AssertionFailed
      else let n = unat (aI * 4 + aJ)
           in if n < length (v m) then Inr (Mat44f ((v m)[n := a])) else Inl OutOfBounds)"

definition kIdentity44f :: Mat44f where
  "kIdentity44f = Mat44f
     [1, 0, 0, 0,
      0, 1, 0, 0,
      0, 0, 1, 0,
      0, 0, 0, 1]"

subsection \<open>Operators\<close>

text \<open>
  \<open>operator*(Mat44f, Mat44f)\<close>. \<open>Mat44f ret;\<close> is declared without an initialiser and
  every element is assigned before it is read; the loops below start from an arbitrary
  array \<open>ret\<close>, and \<open>operator_mul\<close> starts them from zeros. The three nested \<open>for\<close> loops
  over \<open>0..3\<close> are folds over \<open>[0..<4]\<close>, innermost first.
\<close>

definition mul_k_loop :: "Mat44f \<Rightarrow> Mat44f \<Rightarrow> nat \<Rightarrow> nat \<Rightarrow> real list \<Rightarrow> real list" where
  "mul_k_loop aLeft aRight i j ret =
     fold (\<lambda>k r. r[i * 4 + j := r ! (i * 4 + j) + v aLeft ! (i * 4 + k) * v aRight ! (k * 4 + j)])
       [0..<4] (ret[i * 4 + j := 0])"

definition mul_j_loop :: "Mat44f \<Rightarrow> Mat44f \<Rightarrow> nat \<Rightarrow> real list \<Rightarrow> real list" where
  "mul_j_loop aLeft aRight i ret = fold (\<lambda>j r. mul_k_loop aLeft aRight i j r) [0..<4] ret"

definition mul_i_loop :: "Mat44f \<Rightarrow> Mat44f \<Rightarrow> real list \<Rightarrow> real list" where
  "mul_i_loop aLeft aRight ret = fold (\<lambda>i r. mul_j_loop aLeft aRight i r) [0..<4] ret"

definition operator_mul :: "Mat44f \<Rightarrow> Mat44f \<Rightarrow> Mat44f" where
  "operator_mul aLeft aRight = Mat44f (mul_i_loop aLeft aRight (replicate 16 0))"

text \<open>\<open>operator*(Mat44f, Vec4f)\<close>.\<close>

definition operator_mul_vec :: "Mat44f \<Rightarrow> Vec4f \<Rightarrow> Vec4f" where
  "operator_mul_vec aLeft aRight = Vec4f
     (v aLeft ! 0 * vec4_x aRight + v aLeft ! 1 * vec4_y aRight + v aLeft ! 2 * vec4_z aRight + v aLeft ! 3 * vec4_w aRight)
     (v aLeft ! 4 * vec4_x aRight + v aLeft ! 5 * vec4_y aRight + v aLeft ! 6 * vec4_z aRight + v aLeft ! 7 * vec4_w aRight)
     (v aLeft ! 8 * vec4_x aRight + v aLeft ! 9 * vec4_y aRight + v aLeft ! 10 * vec4_z aRight + v aLeft ! 11 * vec4_w aRight)
     (v aLeft ! 12 * vec4_x aRight + v aLeft ! 13 * vec4_y aRight + v aLeft ! 14 * vec4_z aRight + v aLeft ! 15 * vec4_w aRight)"

subsection \<open>Functions\<close>

text \<open>
  \<open>transpose\<close>, named \<open>transpose44\<close> here since lists have a function of that name.
  Again \<open>ret\<close> starts unassigned and both loops run over \<open>0..3\<close>.
\<close>

definition transpose_j_loop :: "Mat44f \<Rightarrow> nat \<Rightarrow> real list \<Rightarrow> real list" where
  "transpose_j_loop aM i ret = fold (\<lambda>j r. r[j * 4 + i := v aM ! (i * 4 + j)]) [0..<4] ret"

definition transpose_i_loop :: "Mat44f \<Rightarrow> real list \<Rightarrow> real list" where
  "transpose_i_loop aM ret = fold (\<lambda>i r. transpose_j_loop aM i r) [0..<4] ret"

definition transpose44 :: "Mat44f \<Rightarrow> Mat44f" where
  "transpose44 aM = Mat44f (transpose_i_loop aM (replicate 16 0))"

definition make_rotation_x :: "real \<Rightarrow> Mat44f" where
  "make_rotation_x aAngle =
     (let c = cos aAngle; s = sin aAngle in Mat44f
        [1, 0, 0, 0,
         0, c, - s, 0,
         0, s, c, 0,
         0, 0, 0, 1])"

definition make_rotation_y :: "real \<Rightarrow> Mat44f" where
  "make_rotation_y aAngle =
     (let c = cos aAngle; s = sin aAngle in Mat44f
        [c, 0, s, 0,
         0, 1, 0, 0,
         - s, 0, c, 0,
         0, 0, 0, 1])"

definition make_rotation_z :: "real \<Rightarrow> Mat44f" where
  "make_rotation_z aAngle =
     (let c = cos aAngle; s = sin aAngle in Mat44f
        [c, - s, 0, 0,
         s, c, 0, 0,
         0, 0, 1, 0,
         0, 0, 0, 1])"

definition make_translation :: "Vec3f \<Rightarrow> Mat44f" where
  "make_translation aTranslation = Mat44f
     [1, 0, 0, vec3_x aTranslation,
      0, 1, 0, vec3_y aTranslation,
      0, 0, 1, vec3_z aTranslation,
      0, 0, 0, 1]"

definition make_scaling :: "real \<Rightarrow> real \<Rightarrow> real \<Rightarrow> Mat44f" where
  "make_scaling aSX aSY aSZ = Mat44f
     [aSX, 0, 0, 0,
      0, aSY, 0, 0,
      0, 0, aSZ, 0,
      0, 0, 0, 1]"

text \<open>
  \<open>make_perspective_projection\<close> over the reals. The last row and the zero entries are the
  literals of the source; the four computed entries are the exact values of the
  expressions of the source, and mean something only where no divisor is zero.
\<close>

definition make_perspective_projection :: "real \<Rightarrow> real \<Rightarrow> real \<Rightarrow> real \<Rightarrow> Mat44f" where
  "make_perspective_projection aFovInRadians aAspect aNear aFar =
     (let f = 1 / tan (aFovInRadians / 2);
          nf = 1 / (aNear - aFar)
      in Mat44f
        [f / aAspect, 0, 0, 0,
         0, f, 0, 0,
         0, 0, (aFar + aNear) * nf, 2 * aFar * aNear * nf,
         0, 0, - 1, 0])"

subsection \<open>The arithmetic of \<open>make_perspective_projection\<close>\<close>

text \<open>
  The operations that \<open>make_perspective_projection\<close> applies to \<open>float\<close> values, as a
  parameter: the literals \<open>0.f\<close>, \<open>1.f\<close> and \<open>2.f\<close>, the unary minus of \<open>-1.f\<close>, the four
  binary operations and \<open>std::tan\<close>. The carrier \<open>'a\<close> is any set of values, so an
  arithmetic with infinities and NaN is an instance as well.
\<close>

datatype 'a arith = Arith (lit0: 'a) (lit1: 'a) (lit2: 'a) (fneg: "'a \<Rightarrow> 'a")
  (fadd: "'a \<Rightarrow> 'a \<Rightarrow> 'a") (fsub: "'a \<Rightarrow> 'a \<Rightarrow> 'a") (fmul: "'a \<Rightarrow> 'a \<Rightarrow> 'a")
  (fdiv: "'a \<Rightarrow> 'a \<Rightarrow> 'a") (ftan: "'a \<Rightarrow> 'a")

text \<open>
  The body of \<open>make_perspective_projection\<close>, operation by operation, returning the 16
  elements of the initialiser:
  \<^verbatim>\<open>float const f = 1.f / std::tan(aFovInRadians / 2.f);\<close>
  \<^verbatim>\<open>float const nf = 1.f / (aNear - aFar);\<close>
  and \<open>2.f * aFar * aNear * nf\<close> associates to the left.
\<close>

definition make_perspective_projection_on :: "'a arith \<Rightarrow> 'a \<Rightarrow> 'a \<Rightarrow> 'a \<Rightarrow> 'a \<Rightarrow> 'a list" where
  "make_perspective_projection_on ar aFovInRadians aAspect aNear aFar =
     (let f = fdiv ar (lit1 ar) (ftan ar (fdiv ar aFovInRadians (lit2 ar)));
          nf = fdiv ar (lit1 ar) (fsub ar aNear aFar)
      in [fdiv ar f aAspect, lit0 ar, lit0 ar, lit0 ar,
          lit0 ar, f, lit0 ar, lit0 ar,
          lit0 ar, lit0 ar, fmul ar (fadd ar aFar aNear) nf,
            fmul ar (fmul ar (fmul ar (lit2 ar) aFar) aNear) nf,
          lit0 ar, lit0 ar, fneg ar (lit1 ar), lit0 ar])"

text \<open>Exact arithmetic: the operations of the reals.\<close>

definition exact_arith :: "real arith" where
  "exact_arith = Arith 0 1 2 uminus (+) (-) (*) (/) tan"

text \<open>
  IEEE 754 binary32, the \<open>float\<close> of the usual platforms, with rounding to nearest and
  ties to even. A finite binary32 number is \<open>m * 2 ^ e\<close> with an integer \<open>\<bar>m\<bar> < 2 ^ 24\<close>
  and \<open>- 149 \<le> e \<le> 104\<close>. \<open>round_even\<close> rounds to the nearest integer, a tie to the
  even one. \<open>fl x\<close> rounds a real to the nearest binary32 number: the exponent \<open>e\<close> puts
  \<open>\<bar>x\<bar> / 2 ^ e\<close> between \<open>2 ^ 23\<close> and \<open>2 ^ 24\<close>, and is held at \<open>- 149\<close> for
  subnormal results. The sign of a zero and the overflow to an infinity (results of
  magnitude \<open>2 ^ 128\<close> and more) are not modelled: \<open>fl\<close> is the \<open>float\<close> result of an
  operation whose exact result is below \<open>2 ^ 128\<close> in magnitude and whose divisor, if
  any, is not zero.
\<close>

definition round_even :: "real \<Rightarrow> int" where
  "round_even y =
     (let n = \<lfloor>y\<rfloor>; r = y - of_int n
      in if r < 1 / 2 then n else if 1 / 2 < r then n + 1 else if even n then n else n + 1)"

definition fl :: "real \<Rightarrow> real" where
  "fl x =
     (if x = 0 then 0
      else let e = max (\<lfloor>log 2 \<bar>x\<bar>\<rfloor> - 23) (- 149)
           in of_int (round_even (x / 2 powr of_int e)) * 2 powr of_int e)"

text \<open>
  Each binary32 operation returns the rounded exact result. The negation is exact.
  \<open>std::tan\<close> is taken as correctly rounded, which a C library need not be; the entries
  \<open>(2,2)\<close> and \<open>(2,3)\<close> do not read it.
\<close>

definition binary32_arith :: "real arith" where
  "binary32_arith = Arith 0 1 2 uminus
     (\<lambda>x y. fl (x + y)) (\<lambda>x y. fl (x - y)) (\<lambda>x y. fl (x * y)) (\<lambda>x y. fl (x / y))
     (\<lambda>x. fl (tan x))"

subsection \<open>Auxiliary notions\<close>

text \<open>
  The value that the innermost loop of \<open>operator*\<close> leaves in \<open>ret.v[i * 4 + j]\<close>: it
  starts at zero and adds the four products in the order \<open>k = 0, 1, 2, 3\<close>.
\<close>

definition mul_entry :: "Mat44f \<Rightarrow> Mat44f \<Rightarrow> nat \<Rightarrow> nat \<Rightarrow> real" where
  "mul_entry aLeft aRight i j =
     0 + v aLeft ! (i * 4 + 0) * v aRight ! (0 * 4 + j)
       + v aLeft ! (i * 4 + 1) * v aRight ! (1 * 4 + j)
       + v aLeft ! (i * 4 + 2) * v aRight ! (2 * 4 + j)
       + v aLeft ! (i * 4 + 3) * v aRight ! (3 * 4 + j)"

text \<open>
  \<open>identity_elsewhere S m\<close>: at every offset of the array that is not listed in \<open>S\<close>, the
  matrix \<open>m\<close> holds what \<open>kIdentity44f\<close> holds there.
\<close>

definition identity_elsewhere :: "nat list \<Rightarrow> Mat44f \<Rightarrow> bool" where
  "identity_elsewhere S m \<longleftrightarrow>
     list_all (\<lambda>n. n \<in> set S \<or> v m ! n = v kIdentity44f ! n) [0..<16]"

text \<open>
  The tolerance of the tests: \<open>static constexpr float kEps_ = 1e-6f\<close> (\<open>kEps\<close> here), and a check
  \<open>REQUIRE_THAT(x, WithinAbs(target, kEps_))\<close> accepts \<open>x\<close> when it is at most the
  margin away from the target.
\<close>

definition kEps :: real where
  "kEps = 1 / 10 ^ 6"

definition WithinAbs :: "real \<Rightarrow> real \<Rightarrow> real \<Rightarrow> bool" where
  "WithinAbs target margin x \<longleftrightarrow> \<bar>x - target\<bar> \<le> margin"

definition vec4_WithinAbs :: "Vec4f \<Rightarrow> real \<Rightarrow> Vec4f \<Rightarrow> bool" where
  "vec4_WithinAbs target margin r \<longleftrightarrow>
     WithinAbs (vec4_x target) margin (vec4_x r) \<and> WithinAbs (vec4_y target) margin (vec4_y r) \<and>
     WithinAbs (vec4_z target) margin (vec4_z r) \<and> WithinAbs (vec4_w target) margin (vec4_w r)"

section \<open>Closed forms of the loops\<close>

lemma upt4: "[0..<4] = [0, 1, 2, 3]"
  by (simp add: upt_rec)

lemma upt16: "[0..<16] = [0, 1, 2, 3, 4, 5, 6, 7, 8, 9, 10, 11, 12, 13, 14, 15]"
  by (simp add: upt_rec)

lemma list_update_Cons_numeral:
  "(x # xs)[numeral k := y] = x # xs[pred_numeral k := y]"
  by (simp add: numeral_eq_Suc)

lemma replicate16:
  "replicate 16 x = [x, x, x, x, x, x, x, x, x, x, x, x, x, x, x, x]"
  by (simp add: numeral_eq_Suc)

lemma list16_expand:
  "length xs = 16 \<Longrightarrow>
   xs = [xs ! 0, xs ! 1, xs ! 2, xs ! 3, xs ! 4, xs ! 5, xs ! 6, xs ! 7,
         xs ! 8, xs ! 9, xs ! 10, xs ! 11, xs ! 12, xs ! 13, xs ! 14, xs ! 15]"
  by (auto simp: numeral_eq_Suc length_Suc_conv)

lemma Suc_Suc_0_eq_2: "Suc (Suc 0) = 2"
  by simp

lemma less4_cases: "i < 4 \<Longrightarrow> i = 0 \<or> i = 1 \<or> i = 2 \<or> i = (3::nat)"
  by arith

text \<open>The innermost loop writes one element and leaves the others alone.\<close>

lemma mul_k_loop_eq:
  "i * 4 + j < length ret \<Longrightarrow>
   mul_k_loop aLeft aRight i j ret = ret[i * 4 + j := mul_entry aLeft aRight i j]"
  by (simp add: mul_k_loop_def upt4 mul_entry_def)

lemma mul_j_loop_eq:
  "i * 4 + 3 < length ret \<Longrightarrow>
   mul_j_loop aLeft aRight i ret =
     ret[i * 4 + 0 := mul_entry aLeft aRight i 0, i * 4 + 1 := mul_entry aLeft aRight i 1,
         i * 4 + 2 := mul_entry aLeft aRight i 2, i * 4 + 3 := mul_entry aLeft aRight i 3]"
  by (simp add: mul_j_loop_def upt4 mul_k_loop_eq)

text \<open>
  Whatever the 16 elements of \<open>ret\<close> hold before the loops, all of them are overwritten:
  the unassigned \<open>Mat44f ret;\<close> of the source does not show in the result.
\<close>

lemma mul_i_loop_eq:
  assumes "length ret = 16"
  shows "mul_i_loop a b ret =
     [mul_entry a b 0 0, mul_entry a b 0 1, mul_entry a b 0 2, mul_entry a b 0 3,
      mul_entry a b 1 0, mul_entry a b 1 1, mul_entry a b 1 2, mul_entry a b 1 3,
      mul_entry a b 2 0, mul_entry a b 2 1, mul_entry a b 2 2, mul_entry a b 2 3,
      mul_entry a b 3 0, mul_entry a b 3 1, mul_entry a b 3 2, mul_entry a b 3 3]"
proof -
  obtain x0 x1 x2 x3 x4 x5 x6 x7 x8 x9 x10 x11 x12 x13 x14 x15
    where r: "ret = [x0, x1, x2, x3, x4, x5, x6, x7, x8, x9, x10, x11, x12, x13, x14, x15]"
    using list16_expand [OF assms] by blast
  show ?thesis
    unfolding r by (simp add: mul_i_loop_def upt4 mul_j_loop_eq list_update_Cons_numeral)
qed

lemma operator_mul_eq:
  "operator_mul a b = Mat44f
     [mul_entry a b 0 0, mul_entry a b 0 1, mul_entry a b 0 2, mul_entry a b 0 3,
      mul_entry a b 1 0, mul_entry a b 1 1, mul_entry a b 1 2, mul_entry a b 1 3,
      mul_entry a b 2 0, mul_entry a b 2 1, mul_entry a b 2 2, mul_entry a b 2 3,
      mul_entry a b 3 0, mul_entry a b 3 1, mul_entry a b 3 2, mul_entry a b 3 3]"
  by (simp add: operator_mul_def mul_i_loop_eq)

lemma wf_operator_mul: "wf_Mat44f (operator_mul a b)"
  by (simp add: operator_mul_eq wf_Mat44f_def)

text \<open>Each element of the product is the row-by-column sum of the spec.\<close>

lemma operator_mul_nth:
  assumes "i < 4" and "j < 4"
  shows "v (operator_mul a b) ! (i * 4 + j) = (\<Sum>k<4. v a ! (i * 4 + k) * v b ! (k * 4 + j))"
proof -
  have s: "(\<Sum>k<4. f k) = f 0 + f 1 + f 2 + f 3" for f :: "nat \<Rightarrow> real"
    by (simp add: numeral_eq_Suc)
  from less4_cases [OF assms(1)] less4_cases [OF assms(2)] show ?thesis
    by (elim disjE) (simp_all add: operator_mul_eq mul_entry_def s Suc_Suc_0_eq_2)
qed

lemma transpose_j_loop_eq:
  "transpose_j_loop aM i ret =
     ret[0 * 4 + i := v aM ! (i * 4 + 0), 1 * 4 + i := v aM ! (i * 4 + 1),
         2 * 4 + i := v aM ! (i * 4 + 2), 3 * 4 + i := v aM ! (i * 4 + 3)]"
  by (simp add: transpose_j_loop_def upt4)

lemma transpose_i_loop_eq:
  assumes "length ret = 16"
  shows "transpose_i_loop aM ret =
     [v aM ! 0, v aM ! 4, v aM ! 8, v aM ! 12,
      v aM ! 1, v aM ! 5, v aM ! 9, v aM ! 13,
      v aM ! 2, v aM ! 6, v aM ! 10, v aM ! 14,
      v aM ! 3, v aM ! 7, v aM ! 11, v aM ! 15]"
proof -
  obtain x0 x1 x2 x3 x4 x5 x6 x7 x8 x9 x10 x11 x12 x13 x14 x15
    where r: "ret = [x0, x1, x2, x3, x4, x5, x6, x7, x8, x9, x10, x11, x12, x13, x14, x15]"
    using list16_expand [OF assms] by blast
  show ?thesis
    unfolding r
    by (simp add: transpose_i_loop_def upt4 transpose_j_loop_eq list_update_Cons_numeral
        Suc_Suc_0_eq_2)
qed

lemma transpose44_eq:
  "transpose44 aM = Mat44f
     [v aM ! 0, v aM ! 4, v aM ! 8, v aM ! 12,
      v aM ! 1, v aM ! 5, v aM ! 9, v aM ! 13,
      v aM ! 2, v aM ! 6, v aM ! 10, v aM ! 14,
      v aM ! 3, v aM ! 7, v aM ! 11, v aM ! 15]"
  by (simp add: transpose44_def transpose_i_loop_eq)

lemma wf_transpose44: "wf_Mat44f (transpose44 aM)"
  by (simp add: transpose44_eq wf_Mat44f_def)

lemma wf_make:
  "wf_Mat44f kIdentity44f"
  "wf_Mat44f (make_rotation_x aAngle)"
  "wf_Mat44f (make_rotation_y aAngle)"
  "wf_Mat44f (make_rotation_z aAngle)"
  "wf_Mat44f (make_translation aTranslation)"
  "wf_Mat44f (make_scaling aSX aSY aSZ)"
  "wf_Mat44f (make_perspective_projection aFovInRadians aAspect aNear aFar)"
  by (simp_all add: wf_Mat44f_def kIdentity44f_def make_rotation_x_def make_rotation_y_def
      make_rotation_z_def make_translation_def make_scaling_def make_perspective_projection_def
      Let_def)

section \<open>Composition of translations and of scalings\<close>

text \<open>
  C1. For all translation vectors \<open>t1\<close> and \<open>t2\<close>, the product of \<open>make_translation t1\<close>
  and \<open>make_translation t2\<close> is a translation matrix: its last column holds the
  element-wise sum \<open>t1 + t2\<close> in its first three entries, and every entry off that column
  is the entry of the identity matrix. The product is written out in full, and it is the
  matrix that \<open>make_translation\<close> builds for the sum.
\<close>

theorem translation_composition:
  "operator_mul (make_translation t1) (make_translation t2) = Mat44f
     [1, 0, 0, vec3_x t1 + vec3_x t2,
      0, 1, 0, vec3_y t1 + vec3_y t2,
      0, 0, 1, vec3_z t1 + vec3_z t2,
      0, 0, 0, 1]
   \<and> operator_mul (make_translation t1) (make_translation t2) =
       make_translation (Vec3f (vec3_x t1 + vec3_x t2) (vec3_y t1 + vec3_y t2) (vec3_z t1 + vec3_z t2))"
  by (simp add: operator_mul_eq mul_entry_def make_translation_def)

text \<open>
  C2. For all scale factors \<open>(a, b, c)\<close> and \<open>(d, e, f)\<close>, the product of
  \<open>make_scaling a b c\<close> and \<open>make_scaling d e f\<close> has the diagonal
  \<open>(a * d, b * e, c * f, 1)\<close> and zero in every entry off the diagonal.
\<close>

theorem scaling_composition:
  "operator_mul (make_scaling a b c) (make_scaling d e f) = Mat44f
     [a * d, 0, 0, 0,
      0, b * e, 0, 0,
      0, 0, c * f, 0,
      0, 0, 0, 1]"
  by (simp add: operator_mul_eq mul_entry_def make_scaling_def)

section \<open>The constructors and the identity matrix\<close>

lemma identity_elsewhere_iff:
  "identity_elsewhere S m \<longleftrightarrow> (\<forall>n<16. n \<notin> set S \<longrightarrow> v m ! n = v kIdentity44f ! n)"
  by (auto simp: identity_elsewhere_def list_all_iff)

lemma translation_identity_elsewhere:
  "identity_elsewhere [3, 7, 11] (make_translation aTranslation)"
  by (simp add: identity_elsewhere_def upt16 make_translation_def kIdentity44f_def)

lemma scaling_identity_elsewhere:
  "identity_elsewhere [0, 5, 10] (make_scaling aSX aSY aSZ)"
  by (simp add: identity_elsewhere_def upt16 make_scaling_def kIdentity44f_def)

lemma rotation_x_identity_elsewhere:
  "identity_elsewhere [5, 6, 9, 10] (make_rotation_x aAngle)"
  by (simp add: identity_elsewhere_def upt16 make_rotation_x_def kIdentity44f_def Let_def)

lemma rotation_y_identity_elsewhere:
  "identity_elsewhere [0, 2, 8, 10] (make_rotation_y aAngle)"
  by (simp add: identity_elsewhere_def upt16 make_rotation_y_def kIdentity44f_def Let_def)

lemma rotation_z_identity_elsewhere:
  "identity_elsewhere [0, 1, 4, 5] (make_rotation_z aAngle)"
  by (simp add: identity_elsewhere_def upt16 make_rotation_z_def kIdentity44f_def Let_def)

lemma perspective_identity_elsewhere:
  "identity_elsewhere [0, 5, 10, 11, 14, 15]
     (make_perspective_projection aFovInRadians aAspect aNear aFar)"
  by (simp add: identity_elsewhere_def upt16 make_perspective_projection_def kIdentity44f_def
      Let_def)

lemma perspective_last_row:
  "v (make_perspective_projection aFovInRadians aAspect aNear aFar) ! 12 = 0"
  "v (make_perspective_projection aFovInRadians aAspect aNear aFar) ! 13 = 0"
  "v (make_perspective_projection aFovInRadians aAspect aNear aFar) ! 14 = - 1"
  "v (make_perspective_projection aFovInRadians aAspect aNear aFar) ! 15 = 0"
  by (simp_all add: make_perspective_projection_def Let_def)

text \<open>
  C3, as stated. Every \<open>make_*\<close> constructor is to return a matrix that agrees with the
  identity matrix at every entry the constructor does not set, so that each transform
  sits in an otherwise-identity basis. The source writes all 16 entries of every
  initialiser, so the entries a constructor sets are read as the ones that make it that
  transform: for \<open>make_perspective_projection\<close> the entries \<open>(0,0)\<close>, \<open>(1,1)\<close>, \<open>(2,2)\<close>,
  \<open>(2,3)\<close> and \<open>(3,2)\<close>, at the offsets 0, 5, 10, 11 and 14. The statement fails for it:
  the entry \<open>(3,3)\<close>, at offset 15, is \<open>0.f\<close> in the source, and the identity matrix has 1
  there. At \<open>fov = pi / 2\<close>, \<open>aspect = 1\<close>, \<open>near = 1\<close>, \<open>far = 2\<close> the source computes
  \<open>f = 1\<close> and \<open>nf = -1\<close>.
\<close>

theorem perspective_not_identity_elsewhere:
  "make_perspective_projection (pi / 2) 1 1 2 = Mat44f
     [1, 0, 0, 0,
      0, 1, 0, 0,
      0, 0, - 3, - 4,
      0, 0, - 1, 0]
   \<and> v (make_perspective_projection (pi / 2) 1 1 2) ! 15 = 0
   \<and> v kIdentity44f ! 15 = 1
   \<and> \<not> identity_elsewhere [0, 5, 10, 11, 14] (make_perspective_projection (pi / 2) 1 1 2)"
  by (simp add: identity_elsewhere_def upt16 make_perspective_projection_def kIdentity44f_def
      Let_def tan_45)

text \<open>
  C3, amended. \<open>make_translation\<close>, \<open>make_scaling\<close> and \<open>make_rotation_x/y/z\<close> return a
  matrix that agrees with the identity matrix at every entry other than the ones they
  compute from their arguments (the first three entries of the last column; the first
  three entries of the diagonal; the four entries of the rotated plane).
  \<open>make_perspective_projection\<close> agrees with the identity matrix at every entry other
  than \<open>(0,0)\<close>, \<open>(1,1)\<close>, \<open>(2,2)\<close>, \<open>(2,3)\<close>, \<open>(3,2)\<close> and \<open>(3,3)\<close>; its entry \<open>(3,2)\<close> is
  \<open>-1\<close> and its entry \<open>(3,3)\<close> is 0, where the identity matrix has 1.
\<close>

theorem make_constructors_identity_elsewhere:
  "identity_elsewhere [3, 7, 11] (make_translation aTranslation)
   \<and> identity_elsewhere [0, 5, 10] (make_scaling aSX aSY aSZ)
   \<and> identity_elsewhere [5, 6, 9, 10] (make_rotation_x aAngle)
   \<and> identity_elsewhere [0, 2, 8, 10] (make_rotation_y aAngle)
   \<and> identity_elsewhere [0, 1, 4, 5] (make_rotation_z aAngle)
   \<and> identity_elsewhere [0, 5, 10, 11, 14, 15]
        (make_perspective_projection aFovInRadians aAspect aNear aFar)
   \<and> v (make_perspective_projection aFovInRadians aAspect aNear aFar) ! 14 = - 1
   \<and> v (make_perspective_projection aFovInRadians aAspect aNear aFar) ! 15 = 0
   \<and> v kIdentity44f ! 15 = 1"
  by (intro conjI translation_identity_elsewhere scaling_identity_elsewhere
      rotation_x_identity_elsewhere rotation_y_identity_elsewhere rotation_z_identity_elsewhere
      perspective_identity_elsewhere perspective_last_row)
    (simp add: kIdentity44f_def)

theorem make_constructors_identity_elsewhere_witness:
  "identity_elsewhere [3, 7, 11] (make_translation (Vec3f 5 10 15))
   \<and> identity_elsewhere [0, 5, 10] (make_scaling 2 3 4)
   \<and> identity_elsewhere [5, 6, 9, 10] (make_rotation_x (pi / 2))
   \<and> identity_elsewhere [0, 2, 8, 10] (make_rotation_y (pi / 2))
   \<and> identity_elsewhere [0, 1, 4, 5] (make_rotation_z (pi / 2))
   \<and> identity_elsewhere [0, 5, 10, 11, 14, 15] (make_perspective_projection (pi / 2) 1 1 2)
   \<and> v (make_perspective_projection (pi / 2) 1 1 2) ! 14 = - 1
   \<and> v (make_perspective_projection (pi / 2) 1 1 2) ! 15 = 0
   \<and> v kIdentity44f ! 15 = 1"
  by (rule make_constructors_identity_elsewhere)

section \<open>The matrix product\<close>

lemma operator_mul_assoc:
  "operator_mul (operator_mul a b) c = operator_mul a (operator_mul b c)"
  by (simp add: operator_mul_eq mul_entry_def algebra_simps)

lemma operator_mul_not_comm:
  "operator_mul (make_translation (Vec3f 1 0 0)) (make_scaling 2 1 1) \<noteq>
   operator_mul (make_scaling 2 1 1) (make_translation (Vec3f 1 0 0))"
  by (simp add: operator_mul_eq mul_entry_def make_translation_def make_scaling_def)

lemma operator_mul_identity:
  assumes "wf_Mat44f a"
  shows "operator_mul kIdentity44f a = a" and "operator_mul a kIdentity44f = a"
proof -
  from assms have len: "length (v a) = 16"
    by (simp add: wf_Mat44f_def)
  have e: "Mat44f [v a ! 0, v a ! 1, v a ! 2, v a ! 3, v a ! 4, v a ! 5, v a ! 6, v a ! 7,
      v a ! 8, v a ! 9, v a ! 10, v a ! 11, v a ! 12, v a ! 13, v a ! 14, v a ! 15] = Mat44f (v a)"
    by (rule arg_cong [where f = Mat44f, OF list16_expand [OF len, symmetric]])
  have "operator_mul kIdentity44f a = Mat44f (v a)"
    unfolding e [symmetric]
    by (simp add: operator_mul_eq mul_entry_def kIdentity44f_def Suc_Suc_0_eq_2)
  then show "operator_mul kIdentity44f a = a" by simp
  have "operator_mul a kIdentity44f = Mat44f (v a)"
    unfolding e [symmetric]
    by (simp add: operator_mul_eq mul_entry_def kIdentity44f_def Suc_Suc_0_eq_2)
  then show "operator_mul a kIdentity44f = a" by simp
qed

text \<open>
  C4. In exact arithmetic the matrix product is associative: for all 4x4 matrices
  \<open>a\<close>, \<open>b\<close>, \<open>c\<close>, the product of \<open>a * b\<close> with \<open>c\<close> is the product of \<open>a\<close> with
  \<open>b * c\<close>. It is not commutative: there are 4x4 matrices \<open>a\<close> and \<open>b\<close> for which
  \<open>a * b\<close> and \<open>b * a\<close> differ. The elements are reals here, which is the exact
  arithmetic of the claim.
\<close>

theorem operator_mul_assoc_not_comm:
  "(\<forall>a b c. wf_Mat44f a \<and> wf_Mat44f b \<and> wf_Mat44f c \<longrightarrow>
      operator_mul (operator_mul a b) c = operator_mul a (operator_mul b c))
   \<and> (\<exists>a b. wf_Mat44f a \<and> wf_Mat44f b \<and> operator_mul a b \<noteq> operator_mul b a)"
proof (intro conjI allI impI)
  fix a b c
  show "operator_mul (operator_mul a b) c = operator_mul a (operator_mul b c)"
    by (rule operator_mul_assoc)
next
  show "\<exists>a b. wf_Mat44f a \<and> wf_Mat44f b \<and> operator_mul a b \<noteq> operator_mul b a"
    using operator_mul_not_comm wf_make(5) wf_make(6) by blast
qed

theorem operator_mul_assoc_not_comm_witness:
  "wf_Mat44f (make_translation (Vec3f 1 2 3)) \<and> wf_Mat44f (make_scaling 2 3 4)
   \<and> wf_Mat44f (make_rotation_z (pi / 2))
   \<and> operator_mul (operator_mul (make_translation (Vec3f 1 2 3)) (make_scaling 2 3 4))
        (make_rotation_z (pi / 2)) =
      operator_mul (make_translation (Vec3f 1 2 3))
        (operator_mul (make_scaling 2 3 4) (make_rotation_z (pi / 2)))"
proof -
  have w: "wf_Mat44f (make_translation (Vec3f 1 2 3)) \<and> wf_Mat44f (make_scaling 2 3 4)
      \<and> wf_Mat44f (make_rotation_z (pi / 2))"
    by (simp add: wf_make)
  from operator_mul_assoc_not_comm
  have "\<forall>a b c. wf_Mat44f a \<and> wf_Mat44f b \<and> wf_Mat44f c \<longrightarrow>
      operator_mul (operator_mul a b) c = operator_mul a (operator_mul b c)"
    by (rule conjunct1)
  with w show ?thesis by blast
qed

section \<open>Transposition\<close>

lemma transpose44_nth:
  assumes "i < 4" and "j < 4"
  shows "v (transpose44 aM) ! (j * 4 + i) = v aM ! (i * 4 + j)"
  using less4_cases [OF assms(1)] less4_cases [OF assms(2)]
  by (elim disjE) (simp_all add: transpose44_eq Suc_Suc_0_eq_2)

lemma transpose44_transpose44:
  assumes "wf_Mat44f aM"
  shows "transpose44 (transpose44 aM) = aM"
proof -
  from assms have len: "length (v aM) = 16"
    by (simp add: wf_Mat44f_def)
  have "transpose44 (transpose44 aM) =
      Mat44f [v aM ! 0, v aM ! 1, v aM ! 2, v aM ! 3, v aM ! 4, v aM ! 5, v aM ! 6, v aM ! 7,
        v aM ! 8, v aM ! 9, v aM ! 10, v aM ! 11, v aM ! 12, v aM ! 13, v aM ! 14, v aM ! 15]"
    by (simp add: transpose44_eq)
  also have "\<dots> = Mat44f (v aM)"
    by (rule arg_cong [where f = Mat44f, OF list16_expand [OF len, symmetric]])
  also have "\<dots> = aM"
    by simp
  finally show ?thesis .
qed

text \<open>
  C5. For every 4x4 matrix \<open>m\<close>, \<open>transpose (transpose m)\<close> is \<open>m\<close>, where \<open>transpose\<close>
  swaps the entries at \<open>(i, j)\<close> and \<open>(j, i)\<close>: the entry \<open>(j, i)\<close> of the result is the
  entry \<open>(i, j)\<close> of the argument.
\<close>

theorem transpose44_involution:
  assumes "wf_Mat44f m"
  shows "transpose44 (transpose44 m) = m
    \<and> (\<forall>i<4. \<forall>j<4. v (transpose44 m) ! (j * 4 + i) = v m ! (i * 4 + j))"
  using assms by (simp add: transpose44_transpose44 transpose44_nth)

theorem transpose44_involution_witness:
  "wf_Mat44f (make_translation (Vec3f 5 10 15))
   \<and> transpose44 (transpose44 (make_translation (Vec3f 5 10 15))) = make_translation (Vec3f 5 10 15)
   \<and> v (transpose44 (make_translation (Vec3f 5 10 15))) ! (3 * 4 + 1) =
       v (make_translation (Vec3f 5 10 15)) ! (1 * 4 + 3)
   \<and> v (transpose44 (make_translation (Vec3f 5 10 15))) ! (3 * 4 + 1) = 10"
proof -
  have w: "wf_Mat44f (make_translation (Vec3f 5 10 15))"
    by (rule wf_make)
  have n: "v (make_translation (Vec3f 5 10 15)) ! (1 * 4 + 3) = 10"
    by (simp add: make_translation_def)
  have i: "(1::nat) < 4" and j: "(3::nat) < 4"
    by simp_all
  from transpose44_involution [OF w]
  have "transpose44 (transpose44 (make_translation (Vec3f 5 10 15))) = make_translation (Vec3f 5 10 15)"
    and "v (transpose44 (make_translation (Vec3f 5 10 15))) ! (3 * 4 + 1) =
       v (make_translation (Vec3f 5 10 15)) ! (1 * 4 + 3)"
    using i j by blast+
  with w n show ?thesis
    by simp
qed

section \<open>Rotations\<close>

lemma rotation_x_quarter:
  "operator_mul_vec (make_rotation_x (pi / 2)) (Vec4f 1 1 0 1) = Vec4f 1 0 1 1"
  by (simp add: operator_mul_vec_def make_rotation_x_def)

lemma rotation_y_quarter:
  "operator_mul_vec (make_rotation_y (pi / 2)) (Vec4f 1 1 0 1) = Vec4f 0 1 (- 1) 1"
  by (simp add: operator_mul_vec_def make_rotation_y_def)

lemma rotation_z_quarter:
  "operator_mul_vec (make_rotation_z (pi / 2)) (Vec4f 1 0 1 1) = Vec4f 0 1 1 1"
  by (simp add: operator_mul_vec_def make_rotation_z_def)

lemma vec4_WithinAbs_refl: "vec4_WithinAbs r kEps r"
  by (simp add: vec4_WithinAbs_def WithinAbs_def kEps_def)

text \<open>
  The tests build the angle as \<open>90.f * pi / 180.f\<close> in \<open>float\<close>, which is near \<open>pi / 2\<close>
  but not equal to it. A cosine and a sine taken at an angle \<open>d\<close> away from \<open>pi / 2\<close> are
  at most \<open>d\<close> away from 0 and 1, so the checks also pass at every angle within the
  tolerance of \<open>pi / 2\<close>.
\<close>

lemma cos_near_quarter: "\<bar>cos a\<bar> \<le> \<bar>a - pi / 2\<bar>" for a :: real
proof -
  have "cos a = - sin (a - pi / 2)"
    by (simp add: sin_diff)
  then show ?thesis
    using abs_sin_x_le_abs_x [of "a - pi / 2"] by simp
qed

lemma sin_near_quarter: "\<bar>sin a - 1\<bar> \<le> \<bar>a - pi / 2\<bar>" for a :: real
proof -
  have "sin a - 1 = sin a - sin (pi / 2)"
    by simp
  also have "\<dots> = 2 * sin ((a - pi / 2) / 2) * cos ((a + pi / 2) / 2)"
    by (rule sin_diff_sin)
  finally have "\<bar>sin a - 1\<bar> = 2 * \<bar>sin ((a - pi / 2) / 2)\<bar> * \<bar>cos ((a + pi / 2) / 2)\<bar>"
    by (simp add: abs_mult)
  also have "\<dots> \<le> 2 * \<bar>(a - pi / 2) / 2\<bar> * 1"
    by (intro mult_mono mult_nonneg_nonneg abs_sin_x_le_abs_x abs_cos_le_one) simp_all
  finally show ?thesis
    by simp
qed

lemma rotation_near_quarter:
  assumes "\<bar>a - pi / 2\<bar> \<le> kEps"
  shows "vec4_WithinAbs (Vec4f 1 0 1 1) kEps (operator_mul_vec (make_rotation_x a) (Vec4f 1 1 0 1))"
    and "vec4_WithinAbs (Vec4f 0 1 (- 1) 1) kEps (operator_mul_vec (make_rotation_y a) (Vec4f 1 1 0 1))"
    and "vec4_WithinAbs (Vec4f 0 1 1 1) kEps (operator_mul_vec (make_rotation_z a) (Vec4f 1 0 1 1))"
  using assms cos_near_quarter [of a] sin_near_quarter [of a]
  by (simp_all add: vec4_WithinAbs_def WithinAbs_def operator_mul_vec_def make_rotation_x_def
      make_rotation_y_def make_rotation_z_def Let_def kEps_def)

text \<open>
  C6. Applying \<open>make_rotation_x (pi / 2)\<close> to the vector \<open>(1, 1, 0, 1)\<close> yields
  \<open>(1, 0, 1, 1)\<close>; applying \<open>make_rotation_y (pi / 2)\<close> to \<open>(1, 1, 0, 1)\<close> yields
  \<open>(0, 1, -1, 1)\<close>; applying \<open>make_rotation_z (pi / 2)\<close> to \<open>(1, 0, 1, 1)\<close> yields
  \<open>(0, 1, 1, 1)\<close>; each component within the tolerance \<open>1e-6\<close>. In exact arithmetic the
  three results are the stated vectors themselves.
\<close>

theorem rotation_quarter_turn:
  "operator_mul_vec (make_rotation_x (pi / 2)) (Vec4f 1 1 0 1) = Vec4f 1 0 1 1
   \<and> operator_mul_vec (make_rotation_y (pi / 2)) (Vec4f 1 1 0 1) = Vec4f 0 1 (- 1) 1
   \<and> operator_mul_vec (make_rotation_z (pi / 2)) (Vec4f 1 0 1 1) = Vec4f 0 1 1 1
   \<and> vec4_WithinAbs (Vec4f 1 0 1 1) kEps
        (operator_mul_vec (make_rotation_x (pi / 2)) (Vec4f 1 1 0 1))
   \<and> vec4_WithinAbs (Vec4f 0 1 (- 1) 1) kEps
        (operator_mul_vec (make_rotation_y (pi / 2)) (Vec4f 1 1 0 1))
   \<and> vec4_WithinAbs (Vec4f 0 1 1 1) kEps
        (operator_mul_vec (make_rotation_z (pi / 2)) (Vec4f 1 0 1 1))"
  by (simp only: rotation_x_quarter rotation_y_quarter rotation_z_quarter vec4_WithinAbs_refl
      simp_thms)

text \<open>
  C7. At the angle zero, \<open>make_rotation_x\<close>, \<open>make_rotation_y\<close> and \<open>make_rotation_z\<close>
  each return the identity matrix, 1 on the diagonal and 0 elsewhere, since
  \<open>cos 0 = 1\<close> and \<open>sin 0 = 0\<close>.
\<close>

theorem rotation_zero_identity:
  "make_rotation_x 0 = kIdentity44f \<and> make_rotation_y 0 = kIdentity44f
   \<and> make_rotation_z 0 = kIdentity44f
   \<and> kIdentity44f = Mat44f [1, 0, 0, 0,  0, 1, 0, 0,  0, 0, 1, 0,  0, 0, 0, 1]"
  by (simp add: make_rotation_x_def make_rotation_y_def make_rotation_z_def kIdentity44f_def)

section \<open>Perspective projection\<close>

lemma make_perspective_projection_exact:
  "make_perspective_projection aFovInRadians aAspect aNear aFar =
     Mat44f (make_perspective_projection_on exact_arith aFovInRadians aAspect aNear aFar)"
  by (simp add: make_perspective_projection_def make_perspective_projection_on_def
      exact_arith_def Let_def)

lemma perspective_standard_exact:
  assumes "near \<noteq> far" and "aspect \<noteq> 0" and "cos (fov / 2) \<noteq> 0" and "tan (fov / 2) \<noteq> 0"
  shows "make_perspective_projection_on exact_arith fov aspect near far =
     (let f = 1 / tan (fov / 2) in
        [f / aspect, 0, 0, 0,
         0, f, 0, 0,
         0, 0, (far + near) / (near - far), 2 * far * near / (near - far),
         0, 0, - 1, 0])"
  by (simp add: make_perspective_projection_on_def exact_arith_def Let_def)

subsection \<open>Rounding to binary32\<close>

lemma round_even_error: "\<bar>of_int (round_even y) - y\<bar> \<le> 1 / 2"
proof -
  have "of_int \<lfloor>y\<rfloor> \<le> y" and "y < of_int \<lfloor>y\<rfloor> + 1"
    by linarith+
  then show ?thesis
    by (auto simp: round_even_def Let_def)
qed

text \<open>In the binade \<open>2 ^ k \<le> \<bar>x\<bar> < 2 ^ (k + 1)\<close> of a normal number the unit is \<open>2 ^ (k - 23)\<close>.\<close>

lemma fl_at:
  assumes "2 powr of_int k \<le> \<bar>x\<bar>" and "\<bar>x\<bar> < 2 powr of_int (k + 1)" and "- 126 \<le> k"
  shows "fl x = of_int (round_even (x / 2 powr of_int (k - 23))) * 2 powr of_int (k - 23)"
proof -
  have pos: "0 < \<bar>x\<bar>"
    using assms(1) powr_gt_zero [of 2 "of_int k"] by linarith
  then have "\<lfloor>log 2 \<bar>x\<bar>\<rfloor> = k"
    using assms(1,2) by (simp add: floor_log_eq_powr_iff)
  then have e: "max (\<lfloor>log 2 \<bar>x\<bar>\<rfloor> - 23) (- 149) = k - 23"
    using assms(3) by simp
  have "x \<noteq> 0"
    using pos by simp
  then show ?thesis
    unfolding fl_def Let_def e by (simp only: if_False)
qed

text \<open>The relative error of a rounding in the normal range is at most \<open>2 ^ - 24\<close>.\<close>

lemma fl_error:
  assumes "2 powr (- 126) \<le> \<bar>x\<bar>"
  shows "\<bar>fl x - x\<bar> \<le> \<bar>x\<bar> / 2 ^ 24"
proof -
  define k where "k = \<lfloor>log 2 \<bar>x\<bar>\<rfloor>"
  have pos: "0 < \<bar>x\<bar>"
    using assms powr_gt_zero [of 2 "- 126"] by linarith
  have lo: "2 powr of_int k \<le> \<bar>x\<bar>" and hi: "\<bar>x\<bar> < 2 powr of_int (k + 1)"
    using floor_log_eq_powr_iff [of "\<bar>x\<bar>" 2 k] pos by (simp_all add: k_def)
  have "(2::real) powr (- 126) < 2 powr of_int (k + 1)"
    using assms hi by linarith
  then have "(- 126 :: real) < of_int (k + 1)"
    by simp
  then have k: "- 126 \<le> k"
    by linarith
  define u :: real where "u = 2 powr of_int (k - 23)"
  have u: "0 < u"
    by (simp add: u_def)
  have "fl x = of_int (round_even (x / u)) * u"
    unfolding u_def by (rule fl_at [OF lo hi k])
  then have "fl x - x = (of_int (round_even (x / u)) - x / u) * u"
    using u by (simp add: algebra_simps)
  then have "\<bar>fl x - x\<bar> = \<bar>of_int (round_even (x / u)) - x / u\<bar> * u"
    using u by (simp add: abs_mult)
  also have "\<dots> \<le> 1 / 2 * u"
    using round_even_error [of "x / u"] u by (intro mult_right_mono) simp_all
  also have "1 / 2 * u = 2 powr of_int k / 2 ^ 24"
    by (simp add: u_def powr_diff)
  also have "\<dots> \<le> \<bar>x\<bar> / 2 ^ 24"
    using lo by (simp add: divide_right_mono)
  finally show ?thesis .
qed

text \<open>
  Some roundings: an exact value, the \<open>float\<close> nearest to one tenth, a tie that goes to
  the even neighbour, and a value between two numbers four apart.
\<close>

lemma fl_examples:
  "fl 1 = 1"
  "fl (1 / 10) = 13421773 / 134217728"
  "fl 16777217 = 16777216"
  "fl 50331645 = 50331644"
  using fl_at [of 0 1] fl_at [of "- 4" "1 / 10"] fl_at [of 24 16777217] fl_at [of 25 50331645]
  by (simp_all add: round_even_def powr_neg_numeral)

lemma binary32_arith_sel:
  "lit0 binary32_arith = 0" "lit1 binary32_arith = 1" "lit2 binary32_arith = 2"
  "fneg binary32_arith x = - x"
  "fadd binary32_arith x y = fl (x + y)" "fsub binary32_arith x y = fl (x - y)"
  "fmul binary32_arith x y = fl (x * y)" "fdiv binary32_arith x y = fl (x / y)"
  "ftan binary32_arith x = fl (tan x)"
  by (simp_all add: binary32_arith_def)

text \<open>
  The roundings on the way to the entry \<open>(2,2)\<close> at \<open>aNear = 1\<close>, \<open>aFar = 4\<close>:
  \<open>aNear - aFar = - 3\<close> and \<open>aFar + aNear = 5\<close> are exact, \<open>nf\<close> is the \<open>float\<close> nearest
  to \<open>- 1 / 3\<close>, and the product \<open>5 * nf\<close> is rounded again. The \<open>float\<close> nearest to the
  quotient \<open>5 / - 3\<close> is its neighbour.
\<close>

lemma fl_minus_3: "fl (- 3) = - 3"
  using fl_at [of 1 "- 3"] by (simp add: round_even_def powr_neg_numeral)

lemma fl_5: "fl 5 = 5"
  using fl_at [of 2 5] by (simp add: round_even_def powr_neg_numeral)

lemma fl_minus_third: "fl (- 1 / 3) = - 11184811 / 33554432"
  using fl_at [of "- 2" "- 1 / 3"] by (simp add: round_even_def powr_neg_numeral)

lemma fl_5_nf: "fl (5 * (- 11184811 / 33554432)) = - 6990507 / 4194304"
  using fl_at [of 0 "5 * (- 11184811 / 33554432)"]
  by (simp add: round_even_def powr_neg_numeral)

lemma fl_quotient: "fl (5 / (- 3)) = - 13981013 / 8388608"
  using fl_at [of 0 "5 / (- 3)"] by (simp add: round_even_def powr_neg_numeral)

lemma binary32_nf:
  "fdiv binary32_arith (lit1 binary32_arith) (fsub binary32_arith 1 4) = - 11184811 / 33554432"
  using fl_minus_third by (simp add: binary32_arith_sel fl_minus_3)

lemma binary32_entry_2_2:
  "make_perspective_projection_on binary32_arith 1 1 1 4 ! 10 = - 6990507 / 4194304"
  using fl_5_nf
  by (simp add: make_perspective_projection_on_def Let_def binary32_nf)
    (simp add: binary32_arith_sel fl_5)

lemma binary32_quotient:
  "fdiv binary32_arith (fadd binary32_arith 4 1) (fsub binary32_arith 1 4) = - 13981013 / 8388608"
  using fl_quotient by (simp add: binary32_arith_sel fl_5 fl_minus_3)

subsection \<open>The entries of the projection matrix\<close>

text \<open>
  C8, as stated. \<open>make_perspective_projection fov aspect near far\<close> is to have the entry
  \<open>(2,2)\<close> equal to \<open>(far + near) / (near - far)\<close>. The source computes
  \<open>(aFar + aNear) * nf\<close> with the rounded reciprocal \<open>nf = 1.f / (aNear - aFar)\<close>. In
  binary32, at \<open>fov = 1\<close>, \<open>aspect = 1\<close>, \<open>near = 1\<close>, \<open>far = 4\<close>, the entry at offset 10 is
  \<open>- 6990507 / 4194304\<close>. That is neither the quotient \<open>- 5 / 3\<close> nor the \<open>float\<close>
  nearest to it, \<open>- 13981013 / 8388608\<close>, which the division of the claim returns.
\<close>

theorem perspective_entry_not_quotient:
  "make_perspective_projection_on binary32_arith 1 1 1 4 ! 10 = - 6990507 / 4194304
   \<and> fdiv binary32_arith (fadd binary32_arith 4 1) (fsub binary32_arith 1 4)
       = - 13981013 / 8388608
   \<and> make_perspective_projection_on binary32_arith 1 1 1 4 ! 10
       \<noteq> fdiv binary32_arith (fadd binary32_arith 4 1) (fsub binary32_arith 1 4)
   \<and> make_perspective_projection_on binary32_arith 1 1 1 4 ! 10 \<noteq> (4 + 1) / (1 - 4)"
  by (simp add: binary32_entry_2_2 binary32_quotient)

text \<open>
  C8, amended. With \<open>f = 1 / tan (fov / 2)\<close> and \<open>nf = 1 / (near - far)\<close>, each operation
  in the arithmetic of \<open>float\<close>, \<open>make_perspective_projection fov aspect near far\<close> has the
  entry \<open>(0,0)\<close> equal to \<open>f / aspect\<close>, the entry \<open>(1,1)\<close> equal to \<open>f\<close>, the entry \<open>(2,2)\<close>
  equal to the product \<open>(far + near) * nf\<close>, the entry \<open>(2,3)\<close> equal to the product
  \<open>2 * far * near * nf\<close>, the entry \<open>(3,2)\<close> equal to \<open>-1\<close>, and all remaining entries 0;
  this holds in every arithmetic (first conjunct). In exact arithmetic, which is the real
  reading of the function (second conjunct), and for \<open>near \<noteq> far\<close>, \<open>aspect \<noteq> 0\<close> and
  \<open>tan (fov / 2)\<close> defined and not zero, the two products are the quotients
  \<open>(far + near) / (near - far)\<close> and \<open>2 * far * near / (near - far)\<close>, and the matrix is
  the standard symmetric-frustum perspective matrix (third conjunct).
\<close>

theorem perspective_projection_computed:
  "make_perspective_projection_on ar x a n f =
     (let t = fdiv ar (lit1 ar) (ftan ar (fdiv ar x (lit2 ar)));
          nf = fdiv ar (lit1 ar) (fsub ar n f)
      in [fdiv ar t a, lit0 ar, lit0 ar, lit0 ar,
          lit0 ar, t, lit0 ar, lit0 ar,
          lit0 ar, lit0 ar, fmul ar (fadd ar f n) nf,
            fmul ar (fmul ar (fmul ar (lit2 ar) f) n) nf,
          lit0 ar, lit0 ar, fneg ar (lit1 ar), lit0 ar])
   \<and> make_perspective_projection fov aspect near far =
       Mat44f (make_perspective_projection_on exact_arith fov aspect near far)
   \<and> (near \<noteq> far \<and> aspect \<noteq> 0 \<and> cos (fov / 2) \<noteq> 0 \<and> tan (fov / 2) \<noteq> 0 \<longrightarrow>
       make_perspective_projection fov aspect near far =
         (let f = 1 / tan (fov / 2) in Mat44f
            [f / aspect, 0, 0, 0,
             0, f, 0, 0,
             0, 0, (far + near) / (near - far), 2 * far * near / (near - far),
             0, 0, - 1, 0]))"
  by (simp add: make_perspective_projection_exact perspective_standard_exact)
    (simp add: make_perspective_projection_on_def)

theorem perspective_projection_computed_witness:
  "(1::real) \<noteq> 2 \<and> (1::real) \<noteq> 0
   \<and> cos (pi / 2 / 2 :: real) \<noteq> 0 \<and> tan (pi / 2 / 2 :: real) \<noteq> 0
   \<and> make_perspective_projection (pi / 2) 1 1 2 = Mat44f
        [1, 0, 0, 0,
         0, 1, 0, 0,
         0, 0, - 3, - 4,
         0, 0, - 1, 0]"
proof -
  have h: "(1::real) \<noteq> 2 \<and> (1::real) \<noteq> 0
      \<and> cos (pi / 2 / 2 :: real) \<noteq> 0 \<and> tan (pi / 2 / 2 :: real) \<noteq> 0"
    by (simp add: cos_45 tan_45)
  have "make_perspective_projection (pi / 2) 1 1 2 =
     (let f = 1 / tan (pi / 2 / 2) in Mat44f
        [f / 1, 0, 0, 0,
         0, f, 0, 0,
         0, 0, (2 + 1) / (1 - 2), 2 * 2 * 1 / (1 - 2),
         0, 0, - 1, 0])"
    by (rule perspective_projection_computed [of exact_arith 0 0 0 0 "pi / 2" 1 1 2,
          THEN conjunct2, THEN conjunct2, THEN mp, OF h])
  with h show ?thesis
    by (simp add: tan_45)
qed

subsection \<open>The last row\<close>

text \<open>
  C10. For every vector \<open>(x, y, z, w)\<close> and all \<open>fov\<close>, \<open>aspect\<close>, \<open>near\<close>, \<open>far\<close>, the
  \<open>w\<close> component of the product of the projection matrix with the vector is \<open>- z\<close>: the
  last row of the matrix is \<open>(0, 0, -1, 0)\<close>.
\<close>

theorem perspective_w_component:
  "vec4_w (operator_mul_vec (make_perspective_projection fov aspect near far) (Vec4f x y z w))
     = - z
   \<and> map (\<lambda>n. v (make_perspective_projection fov aspect near far) ! n) [12, 13, 14, 15]
     = [0, 0, - 1, 0]"
  by (simp add: operator_mul_vec_def perspective_last_row)

section \<open>Element access\<close>

lemma index_no_wrap:
  fixes aI aJ :: "64 word"
  assumes "aI < 4" and "aJ < 4"
  shows "unat (aI * 4 + aJ) = unat aI * 4 + unat aJ" and "unat aI * 4 + unat aJ < 16"
  using assms by (simp_all add: unat_word_ariths word_less_nat_alt)

lemma index_get_in_range:
  assumes "wf_Mat44f m" and "aI < 4" and "aJ < 4"
  shows "index_get ndebug m aI aJ = Inr (v m ! (unat aI * 4 + unat aJ))"
  using assms index_no_wrap [OF assms(2,3)]
  by (simp add: index_get_def wf_Mat44f_def Let_def)

lemma index_set_in_range:
  assumes "wf_Mat44f m" and "aI < 4" and "aJ < 4"
  shows "index_set ndebug m aI aJ a = Inr (Mat44f ((v m)[unat aI * 4 + unat aJ := a]))"
  using assms index_no_wrap [OF assms(2,3)]
  by (simp add: index_set_def wf_Mat44f_def Let_def)

lemma index_assert_fails:
  assumes "\<not> (aI < 4 \<and> aJ < 4)"
  shows "index_get False m aI aJ = Inl AssertionFailed"
    and "index_set False m aI aJ a = Inl AssertionFailed"
  using assms by (simp_all add: index_get_def index_set_def)

lemma index_set_wf:
  "index_set ndebug m aI aJ a = Inr m' \<Longrightarrow> wf_Mat44f m \<Longrightarrow> wf_Mat44f m'"
  by (auto simp: index_set_def wf_Mat44f_def Let_def split: if_splits)

text \<open>With the assertion active, no access leaves the array.\<close>

lemma index_debug_never_out_of_bounds:
  assumes "wf_Mat44f m"
  shows "index_get False m aI aJ \<noteq> Inl OutOfBounds"
    and "index_set False m aI aJ a \<noteq> Inl OutOfBounds"
proof -
  show "index_get False m aI aJ \<noteq> Inl OutOfBounds"
  proof (cases "aI < 4 \<and> aJ < 4")
    case True
    then show ?thesis
      using index_get_in_range [OF assms, of aI aJ False] by simp
  next
    case False
    then show ?thesis
      by (simp add: index_assert_fails)
  qed
  show "index_set False m aI aJ a \<noteq> Inl OutOfBounds"
  proof (cases "aI < 4 \<and> aJ < 4")
    case True
    then show ?thesis
      using index_set_in_range [OF assms, of aI aJ False a] by simp
  next
    case False
    then show ?thesis
      by (simp add: index_assert_fails)
  qed
qed

text \<open>
  Without the assertion a column index past 3 reads a neighbouring row, and large
  indices wrap or leave the array.
\<close>

lemma index_release_build_examples:
  "index_get True kIdentity44f 0 5 = Inr 1"
  "index_get True kIdentity44f (2 ^ 62) 0 = Inr 1"
  "index_get True kIdentity44f 4 0 = Inl OutOfBounds"
  by (simp_all add: index_get_def kIdentity44f_def Let_def)

text \<open>
  C9. For all indices \<open>i < 4\<close> and \<open>j < 4\<close>, the two-index accessor reads or writes the
  element at offset \<open>i * 4 + j\<close>, which lies inside the 16-element array; the offset
  does not wrap, and this holds with or without \<open>NDEBUG\<close>. For an index with
  \<open>i \<ge> 4\<close> or \<open>j \<ge> 4\<close> the precondition is violated: the assertion fails and the access
  is not reached.
\<close>

theorem index_access_guarded:
  "(wf_Mat44f m \<and> aI < 4 \<and> aJ < 4 \<longrightarrow>
      unat aI * 4 + unat aJ < length (v m)
      \<and> index_get ndebug m aI aJ = Inr (v m ! (unat aI * 4 + unat aJ))
      \<and> index_set ndebug m aI aJ a = Inr (Mat44f ((v m)[unat aI * 4 + unat aJ := a])))
   \<and> (\<not> (aI < 4 \<and> aJ < 4) \<longrightarrow>
      index_get False m aI aJ = Inl AssertionFailed
      \<and> index_set False m aI aJ a = Inl AssertionFailed)"
proof (intro conjI impI)
  assume h: "wf_Mat44f m \<and> aI < 4 \<and> aJ < 4"
  then show "unat aI * 4 + unat aJ < length (v m)"
    using index_no_wrap(2) [of aI aJ] by (simp add: wf_Mat44f_def)
  from h show "index_get ndebug m aI aJ = Inr (v m ! (unat aI * 4 + unat aJ))"
    by (simp add: index_get_in_range)
  from h show "index_set ndebug m aI aJ a = Inr (Mat44f ((v m)[unat aI * 4 + unat aJ := a]))"
    by (simp add: index_set_in_range)
next
  assume "\<not> (aI < 4 \<and> aJ < 4)"
  then show "index_get False m aI aJ = Inl AssertionFailed"
    and "index_set False m aI aJ a = Inl AssertionFailed"
    by (rule index_assert_fails)+
qed

theorem index_access_guarded_witness:
  "wf_Mat44f kIdentity44f \<and> (1::64 word) < 4 \<and> (2::64 word) < 4
   \<and> index_get False kIdentity44f 1 2 = Inr 0
   \<and> index_set False kIdentity44f 1 2 7 =
       Inr (Mat44f [1, 0, 0, 0,  0, 1, 7, 0,  0, 0, 1, 0,  0, 0, 0, 1])
   \<and> \<not> ((4::64 word) < 4 \<and> (0::64 word) < 4)
   \<and> index_get False kIdentity44f 4 0 = Inl AssertionFailed
   \<and> index_set False kIdentity44f 4 0 7 = Inl AssertionFailed"
proof -
  have w: "wf_Mat44f kIdentity44f \<and> (1::64 word) < 4 \<and> (2::64 word) < 4"
    by (simp add: wf_make)
  have n: "\<not> ((4::64 word) < 4 \<and> (0::64 word) < 4)"
    by simp
  from index_access_guarded [of kIdentity44f 1 2 False 7] w
  have "index_get False kIdentity44f 1 2 = Inr (v kIdentity44f ! (unat (1::64 word) * 4 + unat (2::64 word)))"
    and "index_set False kIdentity44f 1 2 7 =
      Inr (Mat44f ((v kIdentity44f)[unat (1::64 word) * 4 + unat (2::64 word) := 7]))"
    by blast+
  moreover from index_access_guarded [of kIdentity44f 4 0 False 7] n
  have "index_get False kIdentity44f 4 0 = Inl AssertionFailed"
    and "index_set False kIdentity44f 4 0 7 = Inl AssertionFailed"
    by blast+
  ultimately show ?thesis
    using w n by (simp add: kIdentity44f_def list_update_Cons_numeral)
qed

section \<open>The unit tests of the repository\<close>

text \<open>
  The sections of \<open>vmlib-test/mult.cpp\<close> and \<open>vmlib-test/translation.cpp\<close>, evaluated on
  the model. Each test asks for less than the equation proved here, which is exact.
\<close>

lemma test_identity_times_identity:
  "operator_mul kIdentity44f kIdentity44f = kIdentity44f"
  by (simp add: operator_mul_identity wf_make)

lemma test_matrix_vector:
  "operator_mul_vec kIdentity44f (Vec4f 1 2 3 4) = Vec4f 1 2 3 4"
  by (simp add: operator_mul_vec_def kIdentity44f_def)

lemma operator_mul_vec_identity:
  "operator_mul_vec kIdentity44f r = r"
  by (cases r) (simp add: operator_mul_vec_def kIdentity44f_def)

lemma test_translation_applied:
  "operator_mul_vec (make_translation (Vec3f 1 2 3)) (Vec4f 1 1 1 1) = Vec4f 2 3 4 1"
  "operator_mul_vec (make_translation (Vec3f 2 3 4)) (Vec4f 1 1 1 1) = Vec4f 3 4 5 1"
  by (simp_all add: operator_mul_vec_def make_translation_def)

lemma test_scaling_applied:
  "operator_mul_vec (make_scaling 2 3 4) (Vec4f 1 1 1 1) = Vec4f 2 3 4 1"
  "operator_mul_vec (make_scaling 2 3 4) (Vec4f 2 2 2 1) = Vec4f 4 6 8 1"
  by (simp_all add: operator_mul_vec_def make_scaling_def)

lemma test_translation_composition:
  "map (\<lambda>n. v (operator_mul (make_translation (Vec3f 1 2 3)) (make_translation (Vec3f 4 5 6))) ! n)
     [3, 7, 11] = [5, 7, 9]"
  by (simp add: operator_mul_eq mul_entry_def make_translation_def)

lemma test_scaling_composition:
  "map (\<lambda>n. v (operator_mul (make_scaling 2 2 2) (make_scaling 3 3 3)) ! n) [0, 5, 10] = [6, 6, 6]"
  by (simp add: operator_mul_eq mul_entry_def make_scaling_def)

end
